theory Spec2Isabelle
  imports Main
begin

section \<open>The actor model of \<^verbatim>\<open>ww.py\<close>\<close>

text \<open>
  The game keeps mutable actor objects that refer to each other and to the stage, so the
  embedding uses an explicit store: an actor is a reference (a natural number), the heap
  maps references to the fields of the object, and the stage's list \<^verbatim>\<open>_actors\<close> is a list
  of references. Python compares actors by identity, which is equality of references.
  Rendering, icons and sound are left out.
\<close>

datatype cls =
  Actor | Player | KeyboardPlayer | Box | StickyBox | Wall
  | Monster | NormalMonster | EzMonster | ExplodingMonster | Flame

text \<open>The method resolution order of each class (without \<^verbatim>\<open>object\<close>).\<close>

fun mro :: "cls \<Rightarrow> cls list" where
  "mro Actor = [Actor]"
| "mro Player = [Player, Actor]"
| "mro KeyboardPlayer = [KeyboardPlayer, Player, Actor]"
| "mro Box = [Box, Actor]"
| "mro StickyBox = [StickyBox, Box, Actor]"
| "mro Wall = [Wall, Actor]"
| "mro Monster = [Monster, Actor]"
| "mro NormalMonster = [NormalMonster, Monster, Actor]"
| "mro EzMonster = [EzMonster, Monster, Actor]"
| "mro ExplodingMonster = [ExplodingMonster, Monster, Actor]"
| "mro Flame = [Flame, Monster, Actor]"

definition isinstance :: "cls \<Rightarrow> cls \<Rightarrow> bool" where
  "isinstance k c = (c \<in> set (mro k))"

text \<open>The key constants of pygame that \<^verbatim>\<open>KeyboardPlayer.step\<close> tests; any other key is \<open>K_OTHER\<close>.\<close>

datatype key =
  K_DOWN | K_KP5 | K_LEFT | K_KP4 | K_RIGHT | K_KP6 | K_UP | K_KP8
  | K_KP7 | K_KP9 | K_KP1 | K_KP3 | K_OTHER int

text \<open>
  The fields of an actor object. Every object carries all fields; the fields of
  \<^verbatim>\<open>KeyboardPlayer\<close> (\<open>last_event\<close>, \<open>dead\<close>) and of \<^verbatim>\<open>Monster\<close> (\<open>adx\<close> to \<open>stick_position\<close>) are
  only read by the methods of these classes.
\<close>

record actor =
  klass :: cls
  ax :: int
  ay :: int
  delay_n :: int
  delay_count :: int
  life :: int
  last_event :: "key option"
  dead :: bool
  adx :: int
  ady :: int
  trapped :: bool
  stuck :: bool
  stick_with :: "nat option"
  stick_position :: "(int \<times> int) option"

text \<open>The stage together with the heap; \<open>next_ref\<close> is the next unused reference.\<close>

record state =
  actors :: "nat list"
  player :: "nat option"
  width :: int
  height :: int
  heap :: "nat \<Rightarrow> actor"
  next_ref :: nat

text \<open>
  An exception leaves the mutations made so far in place, so a raise carries the state
  it was raised in. A Python value \<^verbatim>\<open>True\<close>, \<^verbatim>\<open>False\<close> or \<^verbatim>\<open>None\<close> is a \<open>bool option\<close>.
\<close>

datatype error = ValueError | TypeError | ZeroDivisionError | RecursionError

datatype 'a res = Return 'a state | Raise error state

fun state_of :: "'a res \<Rightarrow> state" where
  "state_of (Return v s) = s"
| "state_of (Raise e s) = s"

subsection \<open>Actor: position, life, delay, the default move\<close>

definition upd :: "state \<Rightarrow> nat \<Rightarrow> (actor \<Rightarrow> actor) \<Rightarrow> state" where
  "upd s a f = s\<lparr>heap := (heap s)(a := f (heap s a))\<rparr>"

definition set_position :: "state \<Rightarrow> nat \<Rightarrow> int \<Rightarrow> int \<Rightarrow> state" where
  "set_position s a x y = upd s a (\<lambda>ob. ob\<lparr>ax := x, ay := y\<rparr>)"

definition get_position :: "state \<Rightarrow> nat \<Rightarrow> int \<times> int" where
  "get_position s a = (ax (heap s a), ay (heap s a))"

definition Actor_is_dead :: "state \<Rightarrow> nat \<Rightarrow> bool" where
  "Actor_is_dead s a = (if life (heap s a) = 0 then True else False)"

definition Actor_move :: "state \<Rightarrow> nat \<Rightarrow> int \<Rightarrow> int \<Rightarrow> (bool option) res" where
  "Actor_move s a dx dy =
     Return (Some True) (set_position s a (ax (heap s a) + dx) (ay (heap s a) + dy))"

text \<open>Python's \<^verbatim>\<open>%\<close> raises on a zero divisor and otherwise takes the sign of the divisor, as \<open>mod\<close> does.\<close>

definition delay :: "state \<Rightarrow> nat \<Rightarrow> bool res" where
  "delay s a =
     (if delay_n (heap s a) = 0 then Raise ZeroDivisionError s
      else let s' = upd s a (\<lambda>ob. ob\<lparr>delay_count := (delay_count ob + 1) mod delay_n ob\<rparr>)
           in Return (delay_count (heap s' a) = 0) s')"

subsection \<open>Stage: bounds, lookup, registration\<close>

definition is_in_bounds_x :: "state \<Rightarrow> int \<Rightarrow> bool" where
  "is_in_bounds_x s x = (0 \<le> x \<and> x < width s)"

definition is_in_bounds_y :: "state \<Rightarrow> int \<Rightarrow> bool" where
  "is_in_bounds_y s y = (0 \<le> y \<and> y < height s)"

definition is_in_bounds :: "state \<Rightarrow> int \<Rightarrow> int \<Rightarrow> bool" where
  "is_in_bounds s x y = (is_in_bounds_x s x \<and> is_in_bounds_y s y)"

text \<open>The first actor of the list at the cell, or \<open>None\<close>.\<close>

definition get_actor :: "state \<Rightarrow> int \<Rightarrow> int \<Rightarrow> nat option" where
  "get_actor s x y = find (\<lambda>a. get_position s a = (x, y)) (actors s)"

definition add_actor :: "state \<Rightarrow> nat \<Rightarrow> state" where
  "add_actor s a = s\<lparr>actors := actors s @ [a]\<rparr>"

text \<open>\<^verbatim>\<open>list.remove\<close> deletes the first occurrence and raises \<^verbatim>\<open>ValueError\<close> when there is none.\<close>

definition remove_actor :: "state \<Rightarrow> nat \<Rightarrow> unit res" where
  "remove_actor s a =
     (if a \<in> set (actors s) then Return () (s\<lparr>actors := remove1 a (actors s)\<rparr>)
      else Raise ValueError s)"

text \<open>\<^verbatim>\<open>isinstance(stage.get_actor(x, y), C)\<close>; \<^verbatim>\<open>None\<close> is an instance of no class.\<close>

definition occupant_isinstance :: "state \<Rightarrow> nat option \<Rightarrow> cls \<Rightarrow> bool" where
  "occupant_isinstance s occ c =
     (case occ of None \<Rightarrow> False | Some b \<Rightarrow> isinstance (klass (heap s b)) c)"

subsection \<open>The move protocol\<close>

text \<open>
  \<open>move s self other dx dy\<close> is the call \<^verbatim>\<open>self.move(other, dx, dy)\<close>, dispatched on the
  class of \<open>self\<close>: \<^verbatim>\<open>KeyboardPlayer.move\<close>, \<^verbatim>\<open>Box.move\<close>, \<^verbatim>\<open>StickyBox.move\<close>, \<^verbatim>\<open>Wall.move\<close>,
  \<^verbatim>\<open>Monster.move\<close> (inherited by the three monster subclasses without an own method),
  \<^verbatim>\<open>Flame.move\<close>, and \<^verbatim>\<open>Actor.move\<close> for \<^verbatim>\<open>Actor\<close> and \<^verbatim>\<open>Player\<close>. A method that falls off its end
  returns \<^verbatim>\<open>None\<close>. The repeated calls \<^verbatim>\<open>get_actor(new_x, new_y)\<close> of one method read the same
  list and positions, so the occupant is looked up once.

  With \<open>dx = dy = 0\<close> the occupant of the target cell can be \<open>self\<close>; the call then
  re-enters itself with the same state and arguments until Python raises
  \<^verbatim>\<open>RecursionError\<close>. In every other case the target cell lies further along the direction of
  the push and inside the stage, which bounds the depth of the recursion by the size of
  the stage; the model takes the stage to be smaller than the interpreter's recursion
  limit, so that no other call raises \<^verbatim>\<open>RecursionError\<close>.
\<close>

text \<open>
  The statement \<^verbatim>\<open>if occupant.move(self, dx, dy) == True: return Actor.move(self, other, dx, dy)\<close>
  at the end of a method: an exception of the occupant's move propagates, and without a
  \<^verbatim>\<open>True\<close> from the occupant the method ends and returns \<^verbatim>\<open>None\<close>.
\<close>

definition relocate_if_moved :: "(bool option) res \<Rightarrow> nat \<Rightarrow> int \<Rightarrow> int \<Rightarrow> (bool option) res" where
  "relocate_if_moved asked self dx dy =
     (case asked of
        Raise e s1 \<Rightarrow> Raise e s1
      | Return r s1 \<Rightarrow>
          if r = Some True then Actor_move s1 self dx dy else Return None s1)"

definition reenters :: "nat \<Rightarrow> nat \<Rightarrow> int \<Rightarrow> int \<Rightarrow> bool" where
  "reenters self b dx dy = (dx = 0 \<and> dy = 0 \<and> b = self)"

function move :: "state \<Rightarrow> nat \<Rightarrow> nat \<Rightarrow> int \<Rightarrow> int \<Rightarrow> (bool option) res" where
  "move s self other dx dy =
    (let k = klass (heap s self);
         new_x = ax (heap s self) + dx;
         new_y = ay (heap s self) + dy
     in
     if k = KeyboardPlayer then
       (if is_in_bounds s new_x new_y then
          (let occ = get_actor s new_x new_y in
           if occ \<noteq> None \<and> \<not> occupant_isinstance s occ Monster then
             (case occ of None \<Rightarrow> Return None s
              | Some b \<Rightarrow>
                 if reenters self b dx dy then Raise RecursionError s
                 else relocate_if_moved (move s b self dx dy) self dx dy)
           else if occupant_isinstance s occ NormalMonster then
             Return (Some False) (upd s self (\<lambda>ob. ob\<lparr>life := 0\<rparr>))
           else if occupant_isinstance s occ EzMonster then
             (case occ of None \<Rightarrow> Return None s
              | Some b \<Rightarrow>
                 (case Actor_move (upd s b (\<lambda>ob. ob\<lparr>life := 0\<rparr>)) self dx dy of
                    Raise e s1 \<Rightarrow> Raise e s1
                  | Return r s1 \<Rightarrow> Return (Some True) s1))
           else if occupant_isinstance s occ Flame then
             Return (Some False) (upd s self (\<lambda>ob. ob\<lparr>life := 0\<rparr>))
           else Actor_move s self dx dy)
        else Return (Some False) s)
     else if k = Box then
       (if is_in_bounds s new_x new_y then
          (case get_actor s new_x new_y of
             Some b \<Rightarrow>
               if reenters self b dx dy then Raise RecursionError s
               else relocate_if_moved (move s b self dx dy) self dx dy
           | None \<Rightarrow> Actor_move s self dx dy)
        else Return (Some False) s)
     else if k = StickyBox then
       (if is_in_bounds s new_x new_y then
          (case get_actor s new_x new_y of
             Some b \<Rightarrow>
               (let s0 = (if isinstance (klass (heap s b)) Monster
                          then upd s b (\<lambda>ob. ob\<lparr>stuck := True, stick_with := Some self\<rparr>)
                          else s)
                in if reenters self b dx dy then Raise RecursionError s0
                   else relocate_if_moved (move s0 b self dx dy) self dx dy)
           | None \<Rightarrow> Actor_move s self dx dy)
        else Return (Some False) s)
     else if k = Wall then Return (Some False) s
     else if k = Flame then Return None s
     else if isinstance k Monster then
       (if other \<noteq> self then Return (Some False) s
        else
          (let mx = ax (heap s self) + adx (heap s self);
               my = ay (heap s self) + ady (heap s self);
               s1 = (if \<not> is_in_bounds_x s mx
                     then upd s self (\<lambda>ob. ob\<lparr>adx := - adx ob\<rparr>) else s);
               s2 = (if \<not> is_in_bounds_y s my
                     then upd s1 self (\<lambda>ob. ob\<lparr>ady := - ady ob\<rparr>) else s1);
               bounce_off_edge = (\<not> is_in_bounds_x s mx \<or> \<not> is_in_bounds_y s my)
           in
           if bounce_off_edge then Return (Some False) s2
           else if is_in_bounds s2 mx my then
             (case get_actor s2 mx my of
                None \<Rightarrow> Actor_move s2 self dx dy
              | Some b \<Rightarrow>
                  if isinstance (klass (heap s2 b)) KeyboardPlayer then
                    Return (Some False) (upd s2 b (\<lambda>ob. ob\<lparr>life := 0\<rparr>))
                  else if isinstance (klass (heap s2 b)) StickyBox then
                    Return None
                      (upd s2 self (\<lambda>ob. ob\<lparr>stuck := True, stick_with := Some b,
                                         stick_position := Some (get_position s2 b)\<rparr>))
                  else
                    Return (Some False)
                      (upd s2 self (\<lambda>ob. ob\<lparr>adx := - adx ob, ady := - ady ob\<rparr>)))
           else
             (case Actor_move s2 self dx dy of
                Raise e s3 \<Rightarrow> Raise e s3
              | Return r s3 \<Rightarrow> Return (Some (r \<noteq> Some True)) s3)))
     else Actor_move s self dx dy)"
  by pat_completeness auto

text \<open>
  The bound on the recursion of \<open>move\<close>: the number of cells left in the direction of the
  push, and for \<open>dx = dy = 0\<close> whether the actor is itself the first one at its cell.
\<close>

definition push_room :: "state \<Rightarrow> nat \<Rightarrow> int \<Rightarrow> int \<Rightarrow> nat" where
  "push_room s a dx dy =
     (if 0 < dx then nat (width s - ax (heap s a))
      else if dx < 0 then nat (ax (heap s a) + 1)
      else if 0 < dy then nat (height s - ay (heap s a))
      else if dy < 0 then nat (ay (heap s a) + 1)
      else if get_actor s (ax (heap s a)) (ay (heap s a)) = Some a then 0 else 1)"

subsection \<open>Constructors\<close>

text \<open>
  \<^verbatim>\<open>Actor.__init__\<close>, \<^verbatim>\<open>Monster.__init__\<close>, \<^verbatim>\<open>ExplodingMonster.__init__\<close> (which passes
  \<^verbatim>\<open>delay=5\<close> to its superclass whatever its own argument) and \<^verbatim>\<open>Flame.__init__\<close> (which
  passes \<^verbatim>\<open>delay=1\<close>). Fields that a class does not have get a fixed filler value.
\<close>

definition Actor_init :: "cls \<Rightarrow> int \<Rightarrow> int \<Rightarrow> int \<Rightarrow> actor" where
  "Actor_init k x y dl =
     \<lparr>klass = k, ax = x, ay = y, delay_n = dl, delay_count = 0, life = 5,
      last_event = None, dead = False, adx = 0, ady = 0, trapped = False,
      stuck = False, stick_with = None, stick_position = None\<rparr>"

definition Monster_init :: "cls \<Rightarrow> int \<Rightarrow> int \<Rightarrow> int \<Rightarrow> actor" where
  "Monster_init k x y dl =
     (Actor_init k x y dl)\<lparr>adx := 1, ady := 1, trapped := False, stuck := False,
                            stick_with := None, stick_position := None\<rparr>"

definition ExplodingMonster_init :: "int \<Rightarrow> int \<Rightarrow> int \<Rightarrow> int \<Rightarrow> actor" where
  "ExplodingMonster_init x y dl exploding_delay =
     (Monster_init ExplodingMonster x y 5)\<lparr>life := 10 + exploding_delay\<rparr>"

definition Flame_init :: "int \<Rightarrow> int \<Rightarrow> int \<Rightarrow> actor" where
  "Flame_init x y dl = (Monster_init Flame x y 1)\<lparr>life := 10\<rparr>"

text \<open>Creating an object: it gets the next unused reference.\<close>

definition new :: "state \<Rightarrow> actor \<Rightarrow> nat \<times> state" where
  "new s ob = (next_ref s, s\<lparr>heap := (heap s)(next_ref s := ob), next_ref := Suc (next_ref s)\<rparr>)"

subsection \<open>Monsters: trapped test, explosion\<close>

text \<open>The nine cells that the two nested loops over \<^verbatim>\<open>range_x\<close> and \<^verbatim>\<open>range_y\<close> visit, in their order.\<close>

definition block :: "int \<Rightarrow> int \<Rightarrow> (int \<times> int) list" where
  "block x y = concat (map (\<lambda>cx. map (\<lambda>cy. (cx, cy)) [y - 1, y, y + 1]) [x - 1, x, x + 1])"

definition blocked :: "state \<Rightarrow> int \<times> int \<Rightarrow> bool" where
  "blocked s c =
     (occupant_isinstance s (get_actor s (fst c) (snd c)) Box
      \<or> occupant_isinstance s (get_actor s (fst c) (snd c)) Monster
      \<or> \<not> is_in_bounds s (fst c) (snd c))"

definition is_trapped :: "state \<Rightarrow> nat \<Rightarrow> bool" where
  "is_trapped s a = list_all (blocked s) (block (ax (heap s a)) (ay (heap s a)))"

definition explode_cell :: "state \<Rightarrow> int \<times> int \<Rightarrow> unit res" where
  "explode_cell s c =
     (if is_in_bounds s (fst c) (snd c) then
        (let s1 = (if occupant_isinstance s (get_actor s (fst c) (snd c)) KeyboardPlayer
                   then (case get_actor s (fst c) (snd c) of
                           None \<Rightarrow> s | Some b \<Rightarrow> upd s b (\<lambda>ob. ob\<lparr>life := 0\<rparr>))
                   else s)
         in case (case get_actor s1 (fst c) (snd c) of
                    None \<Rightarrow> Return () s1 | Some b \<Rightarrow> remove_actor s1 b) of
              Raise e s2 \<Rightarrow> Raise e s2
            | Return u s2 \<Rightarrow>
                (case new s2 (Flame_init (fst c) (snd c) 1) of
                   (r, s3) \<Rightarrow> Return () (add_actor s3 r)))
      else Return () s)"

fun explode_cells :: "state \<Rightarrow> (int \<times> int) list \<Rightarrow> unit res" where
  "explode_cells s [] = Return () s"
| "explode_cells s (c # cs) =
     (case explode_cell s c of
        Raise e s1 \<Rightarrow> Raise e s1
      | Return u s1 \<Rightarrow> explode_cells s1 cs)"

definition explode :: "state \<Rightarrow> nat \<Rightarrow> (bool option) res" where
  "explode s a =
     (case explode_cells s (block (ax (heap s a)) (ay (heap s a))) of
        Raise e s1 \<Rightarrow> Raise e s1
      | Return u s1 \<Rightarrow> Return (Some True) s1)"

subsection \<open>The per-tick step of each class\<close>

definition Actor_step :: "state \<Rightarrow> nat \<Rightarrow> (bool option) res" where
  "Actor_step s a =
     (if Actor_is_dead s a then
        (case remove_actor s a of
           Raise e s1 \<Rightarrow> Raise e s1
         | Return u s1 \<Rightarrow> Return None s1)
      else Return None s)"

text \<open>\<^verbatim>\<open>KeyboardPlayer.is_dead\<close> sets the flag \<^verbatim>\<open>dead\<close> the first time it sees life 0.\<close>

definition KeyboardPlayer_is_dead :: "state \<Rightarrow> nat \<Rightarrow> bool \<times> state" where
  "KeyboardPlayer_is_dead s a =
     (if life (heap s a) = 0 \<and> \<not> dead (heap s a) then
        (True, upd s a (\<lambda>ob. ob\<lparr>dead := True\<rparr>))
      else if life (heap s a) = 0 then (True, s)
      else (False, s))"

text \<open>The chain of \<^verbatim>\<open>if\<close> statements that turns the last key into a direction.\<close>

definition key_direction :: "key \<Rightarrow> (int \<times> int) option" where
  "key_direction e =
     (let d0 = None;
          d1 = (if e = K_DOWN \<or> e = K_KP5 then Some (0, 1) else d0);
          d2 = (if e = K_LEFT \<or> e = K_KP4 then Some (- 1, 0) else d1);
          d3 = (if e = K_RIGHT \<or> e = K_KP6 then Some (1, 0) else d2);
          d4 = (if e = K_UP \<or> e = K_KP8 then Some (0, - 1) else d3);
          d5 = (if e = K_KP7 then Some (- 1, - 1) else d4);
          d6 = (if e = K_KP9 then Some (1, - 1) else d5);
          d7 = (if e = K_KP1 then Some (- 1, 1) else d6);
          d8 = (if e = K_KP3 then Some (1, 1) else d7)
      in d8)"

definition KeyboardPlayer_step :: "state \<Rightarrow> nat \<Rightarrow> (bool option) res" where
  "KeyboardPlayer_step s a =
     (case (case last_event (heap s a) of
              None \<Rightarrow> Return (None :: bool option) s
            | Some e \<Rightarrow>
                (case (case key_direction e of
                         None \<Rightarrow> Return None s
                       | Some d \<Rightarrow> move s a a (fst d) (snd d)) of
                   Raise err s1 \<Rightarrow> Raise err s1
                 | Return r s1 \<Rightarrow> Return None (upd s1 a (\<lambda>ob. ob\<lparr>last_event := None\<rparr>)))) of
        Raise err s2 \<Rightarrow> Raise err s2
      | Return r s2 \<Rightarrow>
          (case KeyboardPlayer_is_dead s2 a of
             (d, s3) \<Rightarrow>
               if d then
                 (case remove_actor s3 a of
                    Raise err s4 \<Rightarrow> Raise err s4
                  | Return u s4 \<Rightarrow> Return None s4)
               else Return None s3))"

text \<open>
  \<^verbatim>\<open>Monster.step\<close>. Subscripting \<^verbatim>\<open>stick_position\<close> while it is \<^verbatim>\<open>None\<close> raises \<^verbatim>\<open>TypeError\<close>.
  The comparison with \<^verbatim>\<open>stick_with\<close> is by identity, and \<^verbatim>\<open>None == None\<close> holds.
\<close>

definition Monster_step :: "state \<Rightarrow> nat \<Rightarrow> (bool option) res" where
  "Monster_step s a =
     (case (if Actor_is_dead s a then remove_actor s a else Return () s) of
        Raise e s1 \<Rightarrow> Raise e s1
      | Return u s1 \<Rightarrow>
          (let s2 = (if is_trapped s1 a then upd s1 a (\<lambda>ob. ob\<lparr>life := life ob - 1\<rparr>)
                     else if \<not> is_trapped s1 a then upd s1 a (\<lambda>ob. ob\<lparr>life := 5\<rparr>)
                     else s1)
           in case (if stuck (heap s2 a) then
                      (case stick_position (heap s2 a) of
                         None \<Rightarrow> Raise TypeError s2
                       | Some p \<Rightarrow>
                           if get_actor s2 (fst p) (snd p) = stick_with (heap s2 a)
                           then Return (Some None) s2
                           else Return None
                                  (upd s2 a (\<lambda>ob. ob\<lparr>stick_with := None, stuck := False,
                                                     stick_position := None\<rparr>)))
                    else Return None s2) of
                Raise e s3 \<Rightarrow> Raise e s3
              | Return (Some v) s3 \<Rightarrow> Return v s3
              | Return None s3 \<Rightarrow>
                  (case delay s3 a of
                     Raise e s4 \<Rightarrow> Raise e s4
                   | Return go s4 \<Rightarrow>
                       if \<not> go then Return None s4
                       else (case move s4 a a (adx (heap s4 a)) (ady (heap s4 a)) of
                               Raise e s5 \<Rightarrow> Raise e s5
                             | Return r s5 \<Rightarrow> Return (Some True) s5))))"

definition ExplodingMonster_step :: "state \<Rightarrow> nat \<Rightarrow> (bool option) res" where
  "ExplodingMonster_step s a =
     (let s1 = (if is_trapped s a then upd s a (\<lambda>ob. ob\<lparr>life := life ob - 1\<rparr>) else s);
          s2 = upd s1 a (\<lambda>ob. ob\<lparr>life := life ob - 1\<rparr>)
      in case (if Actor_is_dead s2 a then
                 (case remove_actor s2 a of
                    Raise e s3 \<Rightarrow> Raise e s3
                  | Return u s3 \<Rightarrow> explode s3 a)
               else Return None s2) of
           Raise e s4 \<Rightarrow> Raise e s4
         | Return r s4 \<Rightarrow>
             (case delay s4 a of
                Raise e s5 \<Rightarrow> Raise e s5
              | Return go s5 \<Rightarrow>
                  if \<not> go then Return None s5
                  else (case move s5 a a (adx (heap s5 a)) (ady (heap s5 a)) of
                          Raise e s6 \<Rightarrow> Raise e s6
                        | Return r s6 \<Rightarrow> Return (Some True) s6)))"

definition Flame_step :: "state \<Rightarrow> nat \<Rightarrow> (bool option) res" where
  "Flame_step s a =
     (let s1 = upd s a (\<lambda>ob. ob\<lparr>life := life ob - 1\<rparr>)
      in if Actor_is_dead s1 a then
           (case remove_actor s1 a of
              Raise e s2 \<Rightarrow> Raise e s2
            | Return u s2 \<Rightarrow> Return None s2)
         else Return None s1)"

text \<open>\<^verbatim>\<open>a.step()\<close>: the method of the actor's class, or the nearest one it inherits.\<close>

definition step :: "state \<Rightarrow> nat \<Rightarrow> (bool option) res" where
  "step s a =
     (let k = klass (heap s a) in
      if k = KeyboardPlayer then KeyboardPlayer_step s a
      else if k = ExplodingMonster then ExplodingMonster_step s a
      else if k = Flame then Flame_step s a
      else if isinstance k Monster then Monster_step s a
      else Actor_step s a)"

subsection \<open>Stage.step\<close>

text \<open>
  \<^verbatim>\<open>for a in self._actors: a.step()\<close> iterates over the list object itself: the iterator
  holds an index, and each round reads the element at the index from the list as it is then
  (after the removals and additions of the steps before) and stops when the index has reached
  the current length. The loop is given fuel, since steps can append actors; \<open>None\<close> is the
  result of a run that used up the fuel. The value returned is the list of the actors whose
  step was called, in the order of the calls (Python returns \<^verbatim>\<open>None\<close>).
\<close>

fun Stage_step_from :: "nat \<Rightarrow> state \<Rightarrow> nat \<Rightarrow> nat list \<Rightarrow> (nat list) res option" where
  "Stage_step_from 0 s i called = None"
| "Stage_step_from (Suc fuel) s i called =
     (if i < length (actors s) then
        (case step s (actors s ! i) of
           Raise e s1 \<Rightarrow> Some (Raise e s1)
         | Return r s1 \<Rightarrow> Stage_step_from fuel s1 (Suc i) (called @ [actors s ! i]))
      else Some (Return called s))"

definition Stage_step :: "nat \<Rightarrow> state \<Rightarrow> (nat list) res option" where
  "Stage_step fuel s = Stage_step_from fuel s 0 []"

subsection \<open>Building a stage\<close>

text \<open>
  \<^verbatim>\<open>Stage(width, height, _)\<close> followed by \<^verbatim>\<open>stage.add_actor(C(...))\<close> for each object of a
  list, as the game script sets its stage up. The heap of an empty stage holds a filler
  object at every reference.
\<close>

definition Stage_init :: "int \<Rightarrow> int \<Rightarrow> state" where
  "Stage_init w h =
     \<lparr>actors = [], player = None, width = w, height = h,
      heap = (\<lambda>r. Actor_init Actor 0 0 5), next_ref = 0\<rparr>"

definition register :: "state \<Rightarrow> actor \<Rightarrow> state" where
  "register s ob = (case new s ob of (r, s1) \<Rightarrow> add_actor s1 r)"

definition stage_with :: "int \<Rightarrow> int \<Rightarrow> actor list \<Rightarrow> state" where
  "stage_with w h obs = foldl register (Stage_init w h) obs"

text \<open>\<^verbatim>\<open>Stage.set_player\<close> applied to a new object, and \<^verbatim>\<open>Stage.player_event\<close>.\<close>

definition set_player :: "state \<Rightarrow> actor \<Rightarrow> state" where
  "set_player s ob = (case new s ob of (r, s1) \<Rightarrow> add_actor (s1\<lparr>player := Some r\<rparr>) r)"

definition KeyboardPlayer_init :: "int \<Rightarrow> int \<Rightarrow> actor" where
  "KeyboardPlayer_init x y = (Actor_init KeyboardPlayer x y 5)\<lparr>last_event := None, dead := False\<rparr>"

definition player_event :: "state \<Rightarrow> key \<Rightarrow> state" where
  "player_event s e =
     (case player s of
        None \<Rightarrow> s
      | Some p \<Rightarrow> upd s p (\<lambda>ob. ob\<lparr>last_event := Some e\<rparr>))"

text \<open>
  The main loop of the game script for a number of rounds in which no key arrives: one
  \<^verbatim>\<open>Stage.step\<close> per round. The value is the list of the calls of each round.
\<close>

fun ticks :: "nat \<Rightarrow> nat \<Rightarrow> state \<Rightarrow> (nat list list) res option" where
  "ticks fuel 0 s = Some (Return [] s)"
| "ticks fuel (Suc n) s =
     (case Stage_step fuel s of
        None \<Rightarrow> None
      | Some (Raise e s1) \<Rightarrow> Some (Raise e s1)
      | Some (Return c s1) \<Rightarrow>
          (case ticks fuel n s1 of
             None \<Rightarrow> None
           | Some (Raise e s2) \<Rightarrow> Some (Raise e s2)
           | Some (Return cs s2) \<Rightarrow> Some (Return (c # cs) s2)))"

subsection \<open>Notions for stating what a move changes\<close>

text \<open>
  \<open>same_stage s s'\<close>: the list of actors, the player, the dimensions, the next reference
  and the class of every object are the same in both states.
  \<open>pushed s s' x y dx dy\<close>: every object is where it was, or it stood on the ray from
  \<open>(x, y)\<close> in direction \<open>(dx, dy)\<close> and is now one step further along it.
  \<open>stick s self b\<close> is the state after the two assignments of \<^verbatim>\<open>StickyBox.move\<close> to a
  monster \<open>b\<close> in its way.
\<close>

definition same_stage :: "state \<Rightarrow> state \<Rightarrow> bool" where
  "same_stage s s' \<longleftrightarrow>
     actors s' = actors s \<and> player s' = player s \<and> width s' = width s
     \<and> height s' = height s \<and> next_ref s' = next_ref s
     \<and> (\<forall>a. klass (heap s' a) = klass (heap s a))"

definition pushed :: "state \<Rightarrow> state \<Rightarrow> int \<Rightarrow> int \<Rightarrow> int \<Rightarrow> int \<Rightarrow> bool" where
  "pushed s s' x y dx dy \<longleftrightarrow>
     (\<forall>a. get_position s' a = get_position s a
          \<or> (get_position s' a = (ax (heap s a) + dx, ay (heap s a) + dy)
             \<and> (\<exists>k::nat. get_position s a = (x + int k * dx, y + int k * dy))))"

definition frame :: "state \<Rightarrow> state \<Rightarrow> int \<Rightarrow> int \<Rightarrow> int \<Rightarrow> int \<Rightarrow> bool" where
  "frame s s' x y dx dy \<longleftrightarrow> same_stage s s' \<and> pushed s s' x y dx dy"

definition stick :: "state \<Rightarrow> nat \<Rightarrow> nat \<Rightarrow> state" where
  "stick s self b =
     (if isinstance (klass (heap s b)) Monster
      then upd s b (\<lambda>ob. ob\<lparr>stuck := True, stick_with := Some self\<rparr>) else s)"

subsection \<open>Notions for the push chain\<close>

text \<open>
  \<open>cells_distinct s\<close>: no two entries of the stage's list of actors are at the same cell.
  \<open>box_chain s a dx dy k\<close>: starting at \<open>a\<close> and going in direction \<open>(dx, dy)\<close> there
  are \<open>k\<close> boxes (Box or StickyBox), each the first actor at the cell after the one
  before, and then a Wall. \<open>ahead s a dx dy j\<close> is the actor \<open>j\<close> cells after \<open>a\<close> in
  such a row.
\<close>

definition cells_distinct :: "state \<Rightarrow> bool" where
  "cells_distinct s = distinct (map (get_position s) (actors s))"



subsection \<open>Notions for the trapped test and for runs of the game loop\<close>

text \<open>
  \<open>Moore_neighbours x y\<close> are the eight cells around \<open>(x, y)\<close>, as the specification
  words the trapped test. \<open>tick_states fuel n s\<close> are the states at the start of the
  rounds of the main loop, from \<open>s\<close> on, for \<open>n\<close> rounds without key events (the list
  ends early if a round raises or runs out of fuel). \<open>cornered_monster_stage\<close> is a
  20 by 20 stage with a NormalMonster in the corner (0,0) and boxes on the three cells
  around it.
\<close>

definition Moore_neighbours :: "int \<Rightarrow> int \<Rightarrow> (int \<times> int) list" where
  "Moore_neighbours x y =
     [(x - 1, y - 1), (x - 1, y), (x - 1, y + 1), (x, y - 1), (x, y + 1),
      (x + 1, y - 1), (x + 1, y), (x + 1, y + 1)]"

fun tick_states :: "nat \<Rightarrow> nat \<Rightarrow> state \<Rightarrow> state list" where
  "tick_states fuel 0 s = [s]"
| "tick_states fuel (Suc n) s =
     s # (case Stage_step fuel s of
            Some (Return c s1) \<Rightarrow> tick_states fuel n s1
          | _ \<Rightarrow> [])"

definition cornered_monster_stage :: state where
  "cornered_monster_stage =
     stage_with 20 20
       [Monster_init NormalMonster 0 0 3, Actor_init Box 1 0 5, Actor_init Box 0 1 5,
        Actor_init Box 1 1 5]"

subsection \<open>Notions for the fuse of an ExplodingMonster\<close>



subsection \<open>Notions for the removal of dead actors\<close>

text \<open>
  \<open>returned r\<close>: the call ended without an exception. \<open>life_when_tested s a\<close> is the
  life counter of \<open>a\<close> at the moment its step tests \<^verbatim>\<open>is_dead\<close>: the steps of
  ExplodingMonster and Flame subtract from it first, the other steps (of the classes
  other than KeyboardPlayer) test it as it is. \<open>doomed_player_stage\<close> is a 5 by 5 stage
  with the player at (0,0), a NormalMonster at (1,0) and the key RIGHT pending.
\<close>

fun returned :: "'a res \<Rightarrow> bool" where
  "returned (Return v s) = True"
| "returned (Raise e s) = False"

definition life_when_tested :: "state \<Rightarrow> nat \<Rightarrow> int" where
  "life_when_tested s a =
     (let k = klass (heap s a) in
      if k = ExplodingMonster then life (heap s a) - (if is_trapped s a then 2 else 1)
      else if k = Flame then life (heap s a) - 1
      else life (heap s a))"

definition doomed_player_stage :: state where
  "doomed_player_stage =
     player_event
       (register (set_player (Stage_init 5 5) (KeyboardPlayer_init 0 0))
          (Monster_init NormalMonster 1 0 3))
       K_RIGHT"

subsection \<open>Notions for the one-actor-per-cell invariant\<close>

text \<open>
  \<open>ahead_clear s self dx dy\<close>: no KeyboardPlayer and no object of the base classes Actor
  or Player stands on the ray from \<open>self\<close> in direction \<open>(dx, dy)\<close>.
  \<open>allocated s\<close>: every listed reference is below the next unused one.
  \<open>walks_onto_monster s p dx dy\<close>: the target cell of \<open>p\<close> is inside the stage and its
  occupant is a Monster other than a NormalMonster or a Flame (an EzMonster, an
  ExplodingMonster or a plain Monster): the two branches of \<^verbatim>\<open>KeyboardPlayer.move\<close> in which the
  player relocates into an occupied cell. \<open>pending_walk_onto_monster s p\<close>: the pending key
  of \<open>p\<close> asks for such a move. \<open>only_mover s p\<close>: no listed actor other than \<open>p\<close> is a
  KeyboardPlayer or an object of the base classes. \<open>ez_stage\<close> and \<open>push_stage\<close> are 5 by
  5 stages with the player at (0,0) and an EzMonster, respectively a Box, at (1,0).
\<close>

definition ahead_clear :: "state \<Rightarrow> nat \<Rightarrow> int \<Rightarrow> int \<Rightarrow> bool" where
  "ahead_clear s self dx dy \<longleftrightarrow>
     (\<forall>c\<in>set (actors s). \<forall>k::nat.
        get_position s c = (ax (heap s self) + int (Suc k) * dx, ay (heap s self) + int (Suc k) * dy)
        \<longrightarrow> klass (heap s c) \<notin> {KeyboardPlayer, Actor, Player})"

definition allocated :: "state \<Rightarrow> bool" where
  "allocated s = (\<forall>b\<in>set (actors s). b < next_ref s)"






subsection \<open>A stage for the player's walk onto an ExplodingMonster\<close>

text \<open>
  \<open>fuse_walk_stage\<close> is a 5 by 5 stage with the player at (0,0) and an ExplodingMonster,
  built with \<^verbatim>\<open>exploding_delay = 20\<close>, at (1,0).
\<close>

definition fuse_walk_stage :: state where
  "fuse_walk_stage =
     register (set_player (Stage_init 5 5) (KeyboardPlayer_init 0 0))
       (ExplodingMonster_init 1 0 1 20)"

section \<open>Termination of the move protocol\<close>

lemma actors_upd [simp]: "actors (upd s a f) = actors s"
  and width_upd [simp]: "width (upd s a f) = width s"
  and height_upd [simp]: "height (upd s a f) = height s"
  and next_ref_upd [simp]: "next_ref (upd s a f) = next_ref s"
  and player_upd [simp]: "player (upd s a f) = player s"
  by (simp_all add: upd_def)

lemma heap_upd: "heap (upd s a f) b = (if b = a then f (heap s a) else heap s b)"
  by (simp add: upd_def)

lemma upd_id: "upd s a (\<lambda>ob. ob) = s"
  by (simp add: upd_def)

lemma get_position_upd_keep [simp]:
  "(\<And>ob. ax (f ob) = ax ob \<and> ay (f ob) = ay ob) \<Longrightarrow>
   get_position (upd s a f) b = get_position s b"
  by (simp add: get_position_def upd_def)

lemma get_actor_upd_keep [simp]:
  "(\<And>ob. ax (f ob) = ax ob \<and> ay (f ob) = ay ob) \<Longrightarrow>
   get_actor (upd s a f) x y = get_actor s x y"
  by (simp add: get_actor_def)

lemma get_actor_SomeD:
  "get_actor s x y = Some b \<Longrightarrow> ax (heap s b) = x \<and> ay (heap s b) = y \<and> b \<in> set (actors s)"
  by (auto simp: get_actor_def get_position_def find_Some_iff)

lemma push_room_less:
  assumes "is_in_bounds s (ax (heap s a) + dx) (ay (heap s a) + dy)"
    and "get_actor s (ax (heap s a) + dx) (ay (heap s a) + dy) = Some b"
    and "\<not> reenters a b dx dy"
    and "\<And>ob. ax (f ob) = ax ob \<and> ay (f ob) = ay ob"
  shows "push_room (upd s c f) b dx dy < push_room s a dx dy"
  using assms(1,3) get_actor_SomeD[OF assms(2)] assms(2) assms(4)
  apply (simp add: push_room_def is_in_bounds_def is_in_bounds_x_def is_in_bounds_y_def reenters_def)
  apply (auto simp: upd_def)
  done

termination move
  apply (relation "measure (\<lambda>(s, self, other, dx, dy). push_room s self dx dy)")
     apply simp
  subgoal for s self other dx dy k nx ny occ b
    using push_room_less[of s self dx dy b "\<lambda>ob. ob" self] by (simp add: upd_id)
  subgoal for s self other dx dy k nx ny b
    using push_room_less[of s self dx dy b "\<lambda>ob. ob" self] by (simp add: upd_id)
  subgoal for s self other dx dy k nx ny b s0
    apply (cases "isinstance (klass (heap s b)) Monster")
    using push_room_less[of s self dx dy b "\<lambda>ob. ob\<lparr>stuck := True, stick_with := Some self\<rparr>" b]
     apply simp
    using push_room_less[of s self dx dy b "\<lambda>ob. ob" self] apply (simp add: upd_id)
    done
  done

declare move.simps [simp del]

section \<open>What a move request changes\<close>

text \<open>
  Every move request leaves the stage and the classes alone and changes positions only
  along the ray of the push, by one step each (\<open>move_frame\<close>); a request that returns
  \<^verbatim>\<open>True\<close> has relocated the actor it was sent to (\<open>move_True_relocates\<close>).
\<close>

lemma klass_upd_keep [simp]:
  "(\<And>ob. klass (f ob) = klass ob) \<Longrightarrow> klass (heap (upd s a f) b) = klass (heap s b)"
  by (simp add: heap_upd)

lemma ax_upd_keep [simp]:
  "(\<And>ob. ax (f ob) = ax ob) \<Longrightarrow> ax (heap (upd s a f) b) = ax (heap s b)"
  by (simp add: heap_upd)

lemma ay_upd_keep [simp]:
  "(\<And>ob. ay (f ob) = ay ob) \<Longrightarrow> ay (heap (upd s a f) b) = ay (heap s b)"
  by (simp add: heap_upd)

lemma frame_refl [simp]: "frame s s x y dx dy"
  by (simp add: frame_def same_stage_def pushed_def)

lemma frame_upd_right [simp]:
  assumes "\<And>ob. klass (f ob) = klass ob" "\<And>ob. ax (f ob) = ax ob" "\<And>ob. ay (f ob) = ay ob"
  shows "frame s (upd s' a f) x y dx dy = frame s s' x y dx dy"
  using assms by (simp add: frame_def same_stage_def pushed_def get_position_def)

lemma frame_upd_left [simp]:
  assumes "\<And>ob. klass (f ob) = klass ob" "\<And>ob. ax (f ob) = ax ob" "\<And>ob. ay (f ob) = ay ob"
  shows "frame (upd s a f) s' x y dx dy = frame s s' x y dx dy"
  using assms by (simp add: frame_def same_stage_def pushed_def get_position_def)

lemma frame_shift: "frame s s' (x + dx) (y + dy) dx dy \<Longrightarrow> frame s s' x y dx dy"
  unfolding frame_def pushed_def
proof (intro conjI allI, goal_cases)
  case 1 then show ?case by simp
next
  case (2 a)
  then have "get_position s' a = get_position s a
          \<or> (get_position s' a = (ax (heap s a) + dx, ay (heap s a) + dy)
             \<and> (\<exists>k::nat. get_position s a = (x + dx + int k * dx, y + dy + int k * dy)))"
    by blast
  then show ?case
  proof
    assume "get_position s' a = get_position s a" then show ?thesis by simp
  next
    assume h: "get_position s' a = (ax (heap s a) + dx, ay (heap s a) + dy)
             \<and> (\<exists>k::nat. get_position s a = (x + dx + int k * dx, y + dy + int k * dy))"
    then obtain k :: nat where "get_position s a = (x + dx + int k * dx, y + dy + int k * dy)" by blast
    then have "get_position s a = (x + int (Suc k) * dx, y + int (Suc k) * dy)"
      by (simp add: algebra_simps)
    with h show ?thesis by blast
  qed
qed

lemma pushed_ahead_keeps_self:
  assumes "pushed s s1 (x + dx) (y + dy) dx dy" and "get_position s self = (x, y)"
  shows "get_position s1 self = get_position s self"
proof -
  from assms(1) have "get_position s1 self = get_position s self
    \<or> (get_position s1 self = (ax (heap s self) + dx, ay (heap s self) + dy)
       \<and> (\<exists>k::nat. get_position s self = (x + dx + int k * dx, y + dy + int k * dy)))"
    by (simp add: pushed_def)
  then show ?thesis
  proof
    assume "get_position s1 self = get_position s self" then show ?thesis .
  next
    assume h: "get_position s1 self = (ax (heap s self) + dx, ay (heap s self) + dy)
       \<and> (\<exists>k::nat. get_position s self = (x + dx + int k * dx, y + dy + int k * dy))"
    then obtain k :: nat where "(x, y) = (x + dx + int k * dx, y + dy + int k * dy)"
      using assms(2) by auto
    then have "(1 + int k) * dx = 0" "(1 + int k) * dy = 0" by (simp_all add: algebra_simps)
    then have "dx = 0" "dy = 0" by simp_all
    with h show ?thesis by (simp add: get_position_def)
  qed
qed

lemma frame_relocate:
  assumes "frame s s1 (x + dx) (y + dy) dx dy" and "get_position s self = (x, y)"
  shows "frame s (set_position s1 self (x + dx) (y + dy)) x y dx dy"
proof -
  let ?s' = "set_position s1 self (x + dx) (y + dy)"
  have st: "same_stage s ?s'"
    using assms(1) by (simp add: frame_def same_stage_def set_position_def heap_upd)
  have sh: "pushed s s1 x y dx dy" using frame_shift[OF assms(1)] by (simp add: frame_def)
  have "pushed s ?s' x y dx dy"
    unfolding pushed_def
  proof
    fix a
    show "get_position ?s' a = get_position s a
          \<or> (get_position ?s' a = (ax (heap s a) + dx, ay (heap s a) + dy)
             \<and> (\<exists>k::nat. get_position s a = (x + int k * dx, y + int k * dy)))"
    proof (cases "a = self")
      case False
      then have "get_position ?s' a = get_position s1 a"
        by (simp add: get_position_def set_position_def heap_upd)
      with sh show ?thesis by (simp add: pushed_def)
    next
      case True
      have "get_position ?s' self = (ax (heap s self) + dx, ay (heap s self) + dy)"
        using assms(2) by (simp add: get_position_def set_position_def heap_upd)
      moreover have "get_position s self = (x + int 0 * dx, y + int 0 * dy)"
        using assms(2) by simp
      ultimately show ?thesis using True by blast
    qed
  qed
  with st show ?thesis by (simp add: frame_def)
qed

lemma frame_Actor_move:
  assumes "frame s s1 (x + dx) (y + dy) dx dy" and "get_position s self = (x, y)"
  shows "frame s (state_of (Actor_move s1 self dx dy)) x y dx dy"
proof -
  have "pushed s s1 (x + dx) (y + dy) dx dy" using assms(1) by (simp add: frame_def)
  from pushed_ahead_keeps_self[OF this assms(2)] assms(2)
  have "ax (heap s1 self) = x" "ay (heap s1 self) = y" by (simp_all add: get_position_def)
  then show ?thesis using frame_relocate[OF assms] by (simp add: Actor_move_def)
qed

lemma frame_relocate_if_moved:
  assumes "frame s (state_of asked) (x + dx) (y + dy) dx dy" and "get_position s self = (x, y)"
  shows "frame s (state_of (relocate_if_moved asked self dx dy)) x y dx dy"
proof (cases asked)
  case (Return r s1)
  then show ?thesis using assms frame_Actor_move[of s s1 x dx y dy self] frame_shift[of s s1 x dx y dy]
    by (simp add: relocate_if_moved_def)
next
  case (Raise e s1)
  then show ?thesis using assms frame_shift[of s s1 x dx y dy]
    by (simp add: relocate_if_moved_def)
qed

lemma move_KeyboardPlayer:
  "klass (heap s self) = KeyboardPlayer \<Longrightarrow>
   move s self other dx dy =
     (if is_in_bounds s (ax (heap s self) + dx) (ay (heap s self) + dy) then
        (case get_actor s (ax (heap s self) + dx) (ay (heap s self) + dy) of
           None \<Rightarrow> Actor_move s self dx dy
         | Some b \<Rightarrow>
             if \<not> isinstance (klass (heap s b)) Monster then
               (if reenters self b dx dy then Raise RecursionError s
                else relocate_if_moved (move s b self dx dy) self dx dy)
             else if isinstance (klass (heap s b)) NormalMonster then
               Return (Some False) (upd s self (\<lambda>ob. ob\<lparr>life := 0\<rparr>))
             else if isinstance (klass (heap s b)) EzMonster then
               Return (Some True)
                 (state_of (Actor_move (upd s b (\<lambda>ob. ob\<lparr>life := 0\<rparr>)) self dx dy))
             else if isinstance (klass (heap s b)) Flame then
               Return (Some False) (upd s self (\<lambda>ob. ob\<lparr>life := 0\<rparr>))
             else Actor_move s self dx dy)
      else Return (Some False) s)"
  by (subst move.simps) (simp add: Let_def occupant_isinstance_def Actor_move_def split: option.splits)

lemma move_Box:
  "klass (heap s self) = Box \<Longrightarrow>
   move s self other dx dy =
     (if is_in_bounds s (ax (heap s self) + dx) (ay (heap s self) + dy) then
        (case get_actor s (ax (heap s self) + dx) (ay (heap s self) + dy) of
           None \<Rightarrow> Actor_move s self dx dy
         | Some b \<Rightarrow>
             if reenters self b dx dy then Raise RecursionError s
             else relocate_if_moved (move s b self dx dy) self dx dy)
      else Return (Some False) s)"
  by (subst move.simps) (simp add: Let_def split: option.splits)

lemma move_StickyBox:
  "klass (heap s self) = StickyBox \<Longrightarrow>
   move s self other dx dy =
     (if is_in_bounds s (ax (heap s self) + dx) (ay (heap s self) + dy) then
        (case get_actor s (ax (heap s self) + dx) (ay (heap s self) + dy) of
           None \<Rightarrow> Actor_move s self dx dy
         | Some b \<Rightarrow>
             if reenters self b dx dy then Raise RecursionError (stick s self b)
             else relocate_if_moved (move (stick s self b) b self dx dy) self dx dy)
      else Return (Some False) s)"
  by (subst move.simps) (simp add: Let_def stick_def split: option.splits)

lemma frame_stick_left [simp]: "frame (stick s self b) s' x y dx dy = frame s s' x y dx dy"
  and frame_stick_right [simp]: "frame s (stick s' self b) x y dx dy = frame s s' x y dx dy"
  and ax_stick [simp]: "ax (heap (stick s self b) a) = ax (heap s a)"
  and ay_stick [simp]: "ay (heap (stick s self b) a) = ay (heap s a)"
  and klass_stick [simp]: "klass (heap (stick s self b) a) = klass (heap s a)"
  by (simp_all add: stick_def)

lemma move_frame:
  "frame s (state_of (move s self other dx dy)) (ax (heap s self)) (ay (heap s self)) dx dy"
proof (induction s self other dx dy rule: move.induct)
  case (1 s self other dx dy)
  let ?x = "ax (heap s self)" and ?y = "ay (heap s self)"
  have pos: "get_position s self = (?x, ?y)" by (simp add: get_position_def)
  have direct: "frame s (state_of (Actor_move s self dx dy)) ?x ?y dx dy"
    by (rule frame_Actor_move[OF _ pos]) simp
  consider (kp) "klass (heap s self) = KeyboardPlayer"
    | (box) "klass (heap s self) = Box"
    | (sticky) "klass (heap s self) = StickyBox"
    | (other) "klass (heap s self) \<notin> {KeyboardPlayer, Box, StickyBox}" by blast
  then show ?case
  proof cases
    case kp
    have push: "frame s (state_of (relocate_if_moved (move s b self dx dy) self dx dy)) ?x ?y dx dy"
      if "is_in_bounds s (?x + dx) (?y + dy)" "get_actor s (?x + dx) (?y + dy) = Some b"
        "\<not> isinstance (klass (heap s b)) Monster" "\<not> reenters self b dx dy" for b
    proof -
      have "frame s (state_of (move s b self dx dy)) (ax (heap s b)) (ay (heap s b)) dx dy"
        using "1.IH"(1)[OF refl refl refl kp that(1) refl _ that(2) that(4)] that
        by (simp add: occupant_isinstance_def)
      then have "frame s (state_of (move s b self dx dy)) (?x + dx) (?y + dy) dx dy"
        using get_actor_SomeD[OF that(2)] by simp
      from frame_relocate_if_moved[OF this pos] show ?thesis .
    qed
    have ez: "frame s (state_of (Actor_move (upd s b (\<lambda>ob. ob\<lparr>life := 0\<rparr>)) self dx dy)) ?x ?y dx dy" for b
      by (rule frame_Actor_move[OF _ pos]) simp
    show ?thesis
      using push ez direct by (simp add: move_KeyboardPlayer[OF kp] split: option.splits)
  next
    case box
    have push: "frame s (state_of (relocate_if_moved (move s b self dx dy) self dx dy)) ?x ?y dx dy"
      if "is_in_bounds s (?x + dx) (?y + dy)" "get_actor s (?x + dx) (?y + dy) = Some b"
        "\<not> reenters self b dx dy" for b
    proof -
      have "frame s (state_of (move s b self dx dy)) (ax (heap s b)) (ay (heap s b)) dx dy"
        using "1.IH"(2)[OF refl refl refl _ box that(1) that(2) that(3)] box by simp
      then have "frame s (state_of (move s b self dx dy)) (?x + dx) (?y + dy) dx dy"
        using get_actor_SomeD[OF that(2)] by simp
      from frame_relocate_if_moved[OF this pos] show ?thesis .
    qed
    show ?thesis
      using push direct by (simp add: move_Box[OF box] split: option.splits)
  next
    case sticky
    have push: "frame s (state_of (relocate_if_moved (move (stick s self b) b self dx dy) self dx dy)) ?x ?y dx dy"
      if "is_in_bounds s (?x + dx) (?y + dy)" "get_actor s (?x + dx) (?y + dy) = Some b"
        "\<not> reenters self b dx dy" for b
    proof -
      have "frame (stick s self b) (state_of (move (stick s self b) b self dx dy))
              (ax (heap (stick s self b) b)) (ay (heap (stick s self b) b)) dx dy"
        using "1.IH"(3)[OF refl refl refl _ _ sticky that(1) that(2) _ that(3), of "stick s self b"] sticky
        by (simp add: stick_def)
      then have "frame s (state_of (move (stick s self b) b self dx dy)) (?x + dx) (?y + dy) dx dy"
        using get_actor_SomeD[OF that(2)] by simp
      from frame_relocate_if_moved[OF this pos] show ?thesis .
    qed
    show ?thesis
      using push direct by (simp add: move_StickyBox[OF sticky] split: option.splits)
  next
    case other
    have a1: "frame s (state_of (Actor_move (upd s self f) self dx dy)) ?x ?y dx dy"
      if "\<And>ob. klass (f ob) = klass ob" "\<And>ob. ax (f ob) = ax ob" "\<And>ob. ay (f ob) = ay ob" for f
      by (rule frame_Actor_move[OF _ pos]) (simp add: that)
    have a2: "frame s (state_of (Actor_move (upd (upd s self f) self g) self dx dy)) ?x ?y dx dy"
      if "\<And>ob. klass (f ob) = klass ob" "\<And>ob. ax (f ob) = ax ob" "\<And>ob. ay (f ob) = ay ob"
         "\<And>ob. klass (g ob) = klass ob" "\<And>ob. ax (g ob) = ax ob" "\<And>ob. ay (g ob) = ay ob" for f g
      by (rule frame_Actor_move[OF _ pos]) (simp add: that)
    from other show ?thesis
      by (subst move.simps)
         (simp add: Let_def direct a1 a2 is_in_bounds_def split: option.splits res.splits)
  qed
qed

lemma move_same_stage: "same_stage s (state_of (move s self other dx dy))"
  using move_frame[of s self other dx dy] by (simp add: frame_def)


lemma move_Monster:
  assumes "isinstance (klass (heap s self)) Monster" and "klass (heap s self) \<noteq> Flame"
  shows "move s self other dx dy =
     (if other \<noteq> self then Return (Some False) s
      else if \<not> is_in_bounds_x s (ax (heap s self) + adx (heap s self))
              \<or> \<not> is_in_bounds_y s (ay (heap s self) + ady (heap s self)) then
        Return (Some False)
          (upd s self (\<lambda>ob. ob\<lparr>adx := (if is_in_bounds_x s (ax ob + adx ob) then adx ob else - adx ob),
                               ady := (if is_in_bounds_y s (ay ob + ady ob) then ady ob else - ady ob)\<rparr>))
      else
        (case get_actor s (ax (heap s self) + adx (heap s self))
                (ay (heap s self) + ady (heap s self)) of
           None \<Rightarrow> Actor_move s self dx dy
         | Some b \<Rightarrow>
             if isinstance (klass (heap s b)) KeyboardPlayer then
               Return (Some False) (upd s b (\<lambda>ob. ob\<lparr>life := 0\<rparr>))
             else if isinstance (klass (heap s b)) StickyBox then
               Return None
                 (upd s self (\<lambda>ob. ob\<lparr>stuck := True, stick_with := Some b,
                                    stick_position := Some (get_position s b)\<rparr>))
             else
               Return (Some False)
                 (upd s self (\<lambda>ob. ob\<lparr>adx := - adx ob, ady := - ady ob\<rparr>))))"
proof -
  have k: "klass (heap s self) \<noteq> KeyboardPlayer" "klass (heap s self) \<noteq> Box"
    "klass (heap s self) \<noteq> StickyBox" "klass (heap s self) \<noteq> Wall"
    using assms(1) by (auto simp: isinstance_def)
  show ?thesis
    using k assms
    apply (subst move.simps)
    apply (auto simp: Let_def is_in_bounds_def upd_def fun_eq_iff split: option.splits)
    done
qed


section \<open>Pushing boxes\<close>




lemma cells_distinct_stick [simp]: "cells_distinct (stick s self b) = cells_distinct s"
  by (simp add: cells_distinct_def stick_def cong: map_cong)

lemma get_position_stick [simp]: "get_position (stick s self b) a = get_position s a"
  by (simp add: get_position_def)

lemma get_actor_stick [simp]: "get_actor (stick s self b) x y = get_actor s x y"
  by (simp add: stick_def)

lemma actors_stick [simp]: "actors (stick s self b) = actors s"
  by (simp add: stick_def)






section \<open>The life of monsters\<close>

lemma is_trapped_iff:
  "is_trapped s a \<longleftrightarrow>
     list_all (blocked s) (Moore_neighbours (ax (heap s a)) (ay (heap s a)))
     \<and> blocked s (ax (heap s a), ay (heap s a))"
  by (auto simp: is_trapped_def block_def Moore_neighbours_def)

lemma own_cell_blocked:
  "isinstance (klass (heap s a)) Monster \<Longrightarrow>
   get_actor s (ax (heap s a)) (ay (heap s a)) = Some a \<Longrightarrow>
   blocked s (ax (heap s a), ay (heap s a))"
  by (simp add: blocked_def occupant_isinstance_def)

lemma life_upd_keep [simp]:
  "(\<And>ob. life (f ob) = life ob) \<Longrightarrow> life (heap (upd s a f) b) = life (heap s b)"
  by (simp add: heap_upd)

lemma move_Monster_own_life:
  assumes "isinstance (klass (heap s a)) Monster"
  shows "life (heap (state_of (move s a other dx dy)) a) = life (heap s a)"
proof (cases "klass (heap s a) = Flame")
  case True
  then show ?thesis by (subst move.simps) simp
next
  case False
  have "b \<noteq> a" if "isinstance (klass (heap s b)) KeyboardPlayer" for b
    using that assms by (cases "klass (heap s a)") (auto simp: isinstance_def)
  then show ?thesis
    by (auto simp: move_Monster[OF assms False] Actor_move_def set_position_def heap_upd
             split: option.splits)
qed

lemma delay_life [simp]: "life (heap (state_of (delay s a)) b) = life (heap s b)"
  by (simp add: delay_def Let_def)

lemma delay_klass [simp]: "klass (heap (state_of (delay s a)) b) = klass (heap s b)"
  by (simp add: delay_def Let_def)

lemma Monster_tail_life:
  assumes "isinstance (klass (heap t a)) Monster"
  shows "life (heap (state_of
        (case delay t a of
           Raise e s4 \<Rightarrow> Raise e s4
         | Return go s4 \<Rightarrow>
             if \<not> go then Return None s4
             else (case move s4 a a (adx (heap s4 a)) (ady (heap s4 a)) of
                     Raise e s5 \<Rightarrow> Raise e s5
                   | Return r s5 \<Rightarrow> Return (Some True) s5))) a) = life (heap t a)"
proof (cases "delay t a")
  case (Raise e s4)
  then show ?thesis using delay_life[of t a a] by simp
next
  case (Return go s4)
  then have l4: "life (heap s4 a) = life (heap t a)"
    and k4: "isinstance (klass (heap s4 a)) Monster"
    using delay_life[of t a a] delay_klass[of t a a] assms by simp_all
  show ?thesis
  proof (cases go)
    case False
    with Return l4 show ?thesis by simp
  next
    case True
    have "life (heap (state_of (move s4 a a (adx (heap s4 a)) (ady (heap s4 a)))) a)
            = life (heap s4 a)"
      using move_Monster_own_life[OF k4] .
    with Return True l4 show ?thesis
      by (cases "move s4 a a (adx (heap s4 a)) (ady (heap s4 a))") simp_all
  qed
qed

lemma life_after_Monster_step:
  assumes k: "klass (heap s a) \<in> {Monster, NormalMonster, EzMonster}"
    and listed: "life (heap s a) = 0 \<longrightarrow> a \<in> set (actors s)"
  shows "life (heap (state_of (Monster_step s a)) a) =
           (if is_trapped (if life (heap s a) = 0 then s\<lparr>actors := remove1 a (actors s)\<rparr> else s) a
            then life (heap s a) - 1 else 5)"
proof -
  define s1 where "s1 = (if life (heap s a) = 0 then s\<lparr>actors := remove1 a (actors s)\<rparr> else s)"
  define s2 where "s2 = (if is_trapped s1 a then upd s1 a (\<lambda>ob. ob\<lparr>life := life ob - 1\<rparr>)
             else if \<not> is_trapped s1 a then upd s1 a (\<lambda>ob. ob\<lparr>life := 5\<rparr>)
             else s1)"
  define s3 where "s3 = upd s2 a (\<lambda>ob. ob\<lparr>stick_with := None, stuck := False, stick_position := None\<rparr>)"
  have h1: "heap s1 = heap s" by (simp add: s1_def)
  have l2: "life (heap s2 a) = (if is_trapped s1 a then life (heap s a) - 1 else 5)"
    by (simp add: s2_def heap_upd h1)
  have k2: "isinstance (klass (heap s2 a)) Monster"
    using k by (auto simp: s2_def heap_upd h1 isinstance_def)
  have k3: "isinstance (klass (heap s3 a)) Monster" and l3: "life (heap s3 a) = life (heap s2 a)"
    using k2 by (simp_all add: s3_def)
  have rm: "(if Actor_is_dead s a then remove_actor s a else Return () s) = Return () s1"
    using listed by (simp add: Actor_is_dead_def remove_actor_def s1_def)
  have step: "Monster_step s a =
     (case (if stuck (heap s2 a) then
              (case stick_position (heap s2 a) of
                 None \<Rightarrow> Raise TypeError s2
               | Some p \<Rightarrow>
                   if get_actor s2 (fst p) (snd p) = stick_with (heap s2 a)
                   then Return (Some None) s2
                   else Return None s3)
            else Return None s2) of
        Raise e s3 \<Rightarrow> Raise e s3
      | Return (Some v) s3 \<Rightarrow> Return v s3
      | Return None s3 \<Rightarrow>
          (case delay s3 a of
             Raise e s4 \<Rightarrow> Raise e s4
           | Return go s4 \<Rightarrow>
               if \<not> go then Return None s4
               else (case move s4 a a (adx (heap s4 a)) (ady (heap s4 a)) of
                       Raise e s5 \<Rightarrow> Raise e s5
                     | Return r s5 \<Rightarrow> Return (Some True) s5)))"
    by (simp only: Monster_step_def rm Let_def s2_def s3_def res.case)
  have "life (heap (state_of (Monster_step s a)) a) = life (heap s2 a)"
  proof (cases "stuck (heap s2 a)")
    case False
    then show ?thesis using Monster_tail_life[OF k2] by (simp add: step)
  next
    case True
    show ?thesis
    proof (cases "stick_position (heap s2 a)")
      case None
      with True show ?thesis by (simp add: step)
    next
      case (Some p)
      show ?thesis
      proof (cases "get_actor s2 (fst p) (snd p) = stick_with (heap s2 a)")
        case True
        with \<open>stuck (heap s2 a)\<close> Some show ?thesis by (simp add: step)
      next
        case False
        with \<open>stuck (heap s2 a)\<close> Some show ?thesis
          using Monster_tail_life[OF k3] l3 by (simp add: step)
      qed
    qed
  qed
  with l2 show ?thesis by (simp add: s1_def)
qed

section \<open>Explosions leave other objects alone; the fuse\<close>







section \<open>Removal of dead actors\<close>

lemma same_stage_refl [simp]: "same_stage s s"
  by (simp add: same_stage_def)

lemma same_stage_upd_right [simp]:
  "(\<And>ob. klass (f ob) = klass ob) \<Longrightarrow> same_stage s (upd t a f) = same_stage s t"
  by (simp add: same_stage_def)

lemma same_stage_upd_left [simp]:
  "(\<And>ob. klass (f ob) = klass ob) \<Longrightarrow> same_stage (upd s a f) t = same_stage s t"
  by (simp add: same_stage_def)

lemma same_stage_trans: "same_stage s t \<Longrightarrow> same_stage t u \<Longrightarrow> same_stage s u"
  by (simp add: same_stage_def)

lemma delay_same_stage [simp]: "same_stage s (state_of (delay s a))"
  by (simp add: delay_def Let_def)

lemma KeyboardPlayer_step_dead:
  assumes "returned (KeyboardPlayer_step s p)"
  shows "player (state_of (KeyboardPlayer_step s p)) = player s
     \<and> (if life (heap (state_of (KeyboardPlayer_step s p)) p) = 0
        then dead (heap (state_of (KeyboardPlayer_step s p)) p) \<and> p \<in> set (actors s)
             \<and> actors (state_of (KeyboardPlayer_step s p)) = remove1 p (actors s)
        else actors (state_of (KeyboardPlayer_step s p)) = actors s)"
proof -
  define r2 where "r2 = (case last_event (heap s p) of
              None \<Rightarrow> Return (None :: bool option) s
            | Some e \<Rightarrow>
                (case (case key_direction e of
                         None \<Rightarrow> Return None s
                       | Some d \<Rightarrow> move s p p (fst d) (snd d)) of
                   Raise err s1 \<Rightarrow> Raise err s1
                 | Return r s1 \<Rightarrow> Return None (upd s1 p (\<lambda>ob. ob\<lparr>last_event := None\<rparr>))))"
  have step: "KeyboardPlayer_step s p =
     (case r2 of
        Raise err s2 \<Rightarrow> Raise err s2
      | Return r s2 \<Rightarrow>
          (case KeyboardPlayer_is_dead s2 p of
             (d, s3) \<Rightarrow>
               if d then
                 (case remove_actor s3 p of
                    Raise err s4 \<Rightarrow> Raise err s4
                  | Return u s4 \<Rightarrow> Return None s4)
               else Return None s3))"
    by (simp only: KeyboardPlayer_step_def r2_def)
  have st2: "same_stage s (state_of r2)"
  proof (cases "last_event (heap s p)")
    case None
    then show ?thesis by (simp add: r2_def)
  next
    case (Some e)
    show ?thesis
    proof (cases "key_direction e")
      case None
      with Some show ?thesis by (simp add: r2_def)
    next
      case (Some d)
      with \<open>last_event (heap s p) = Some e\<close> move_same_stage[of s p p "fst d" "snd d"]
      show ?thesis
        by (cases "move s p p (fst d) (snd d)") (simp_all add: r2_def)
    qed
  qed
  from assms obtain v s2 where r2: "r2 = Return v s2"
    by (cases r2) (simp_all add: step)
  with st2 have st: "actors s2 = actors s" "player s2 = player s"
    by (simp_all add: same_stage_def)
  show ?thesis
    using assms st
    by (auto simp: step r2 KeyboardPlayer_is_dead_def remove_actor_def heap_upd
             split: if_splits)
qed

lemma Actor_step_removes:
  "returned (Actor_step s a) \<Longrightarrow> life (heap s a) = 0 \<Longrightarrow>
   actors (state_of (Actor_step s a)) = remove1 a (actors s)"
  by (auto simp: Actor_step_def Actor_is_dead_def remove_actor_def split: if_splits)

lemma Flame_step_removes:
  "returned (Flame_step s a) \<Longrightarrow> life (heap s a) = 1 \<Longrightarrow>
   actors (state_of (Flame_step s a)) = remove1 a (actors s)"
  by (auto simp: Flame_step_def Actor_is_dead_def remove_actor_def heap_upd Let_def
           split: if_splits)

lemma Monster_tail_actors:
  "actors (state_of
        (case delay t a of
           Raise e s4 \<Rightarrow> Raise e s4
         | Return go s4 \<Rightarrow>
             if \<not> go then Return None s4
             else (case move s4 a a (adx (heap s4 a)) (ady (heap s4 a)) of
                     Raise e s5 \<Rightarrow> Raise e s5
                   | Return r s5 \<Rightarrow> Return (Some True) s5))) = actors t"
proof (cases "delay t a")
  case (Raise e s4)
  then show ?thesis using delay_same_stage[of t a] by (simp add: same_stage_def)
next
  case (Return go s4)
  then have a4: "actors s4 = actors t"
    using delay_same_stage[of t a] by (simp add: same_stage_def)
  show ?thesis
  proof (cases go)
    case False
    with Return a4 show ?thesis by simp
  next
    case True
    have "actors (state_of (move s4 a a (adx (heap s4 a)) (ady (heap s4 a)))) = actors s4"
      using move_same_stage[of s4 a a] by (simp add: same_stage_def)
    with Return True a4 show ?thesis
      by (cases "move s4 a a (adx (heap s4 a)) (ady (heap s4 a))") simp_all
  qed
qed

lemma Monster_step_removes:
  assumes "returned (Monster_step s a)" and "life (heap s a) = 0"
  shows "actors (state_of (Monster_step s a)) = remove1 a (actors s)"
proof -
  have listed: "a \<in> set (actors s)"
    using assms by (auto simp: Monster_step_def Actor_is_dead_def remove_actor_def split: if_splits)
  define s1 where "s1 = s\<lparr>actors := remove1 a (actors s)\<rparr>"
  define s2 where "s2 = (if is_trapped s1 a then upd s1 a (\<lambda>ob. ob\<lparr>life := life ob - 1\<rparr>)
             else if \<not> is_trapped s1 a then upd s1 a (\<lambda>ob. ob\<lparr>life := 5\<rparr>)
             else s1)"
  define s3 where "s3 = upd s2 a (\<lambda>ob. ob\<lparr>stick_with := None, stuck := False, stick_position := None\<rparr>)"
  have a2: "actors s2 = remove1 a (actors s)" and a3: "actors s3 = remove1 a (actors s)"
    by (simp_all add: s3_def s2_def s1_def)
  have rm: "(if Actor_is_dead s a then remove_actor s a else Return () s) = Return () s1"
    using listed assms(2) by (simp add: Actor_is_dead_def remove_actor_def s1_def)
  have step: "Monster_step s a =
     (case (if stuck (heap s2 a) then
              (case stick_position (heap s2 a) of
                 None \<Rightarrow> Raise TypeError s2
               | Some p \<Rightarrow>
                   if get_actor s2 (fst p) (snd p) = stick_with (heap s2 a)
                   then Return (Some None) s2
                   else Return None s3)
            else Return None s2) of
        Raise e s3 \<Rightarrow> Raise e s3
      | Return (Some v) s3 \<Rightarrow> Return v s3
      | Return None s3 \<Rightarrow>
          (case delay s3 a of
             Raise e s4 \<Rightarrow> Raise e s4
           | Return go s4 \<Rightarrow>
               if \<not> go then Return None s4
               else (case move s4 a a (adx (heap s4 a)) (ady (heap s4 a)) of
                       Raise e s5 \<Rightarrow> Raise e s5
                     | Return r s5 \<Rightarrow> Return (Some True) s5)))"
    by (simp only: Monster_step_def rm Let_def s2_def s3_def res.case)
  show ?thesis
    using Monster_tail_actors[where t=s2 and a=a] Monster_tail_actors[where t=s3 and a=a] a2 a3
    by (auto simp: step split: option.splits)
qed

lemma explode_cell_actors:
  assumes "set (actors s) \<subseteq> A \<union> {r. n \<le> r}" and "n \<le> next_ref s"
  shows "set (actors (state_of (explode_cell s c))) \<subseteq> A \<union> {r. n \<le> r}
         \<and> n \<le> next_ref (state_of (explode_cell s c))"
proof -
  have "set (remove1 b (actors s)) \<subseteq> A \<union> {r. n \<le> r}" for b
    using assms(1) set_remove1_subset[of b "actors s"] by blast
  then show ?thesis
    using assms
    by (auto simp: explode_cell_def remove_actor_def new_def add_actor_def Let_def
             split: option.splits)
qed

lemma explode_cells_actors:
  "set (actors s) \<subseteq> A \<union> {r. n \<le> r} \<Longrightarrow> n \<le> next_ref s \<Longrightarrow>
   set (actors (state_of (explode_cells s cs))) \<subseteq> A \<union> {r. n \<le> r}"
proof (induction cs arbitrary: s)
  case Nil
  then show ?case by simp
next
  case (Cons c cs)
  note k = explode_cell_actors[OF Cons.prems, of c]
  show ?case
  proof (cases "explode_cell s c")
    case (Raise e s1)
    with k show ?thesis by simp
  next
    case (Return u s1)
    with k Cons.IH[of s1] show ?thesis by simp
  qed
qed

lemma explode_actors:
  "set (actors s) \<subseteq> A \<union> {r. n \<le> r} \<Longrightarrow> n \<le> next_ref s \<Longrightarrow>
   set (actors (state_of (explode s b))) \<subseteq> A \<union> {r. n \<le> r}"
  using explode_cells_actors[of s A n "block (ax (heap s b)) (ay (heap s b))"]
  by (cases "explode_cells s (block (ax (heap s b)) (ay (heap s b)))") (simp_all add: explode_def)

lemma ExplodingMonster_step_removes:
  assumes ret: "returned (ExplodingMonster_step s a)"
    and zero: "life (heap s a) - (if is_trapped s a then 2 else 1) = 0"
    and dist: "distinct (actors s)" and alloc: "\<forall>b\<in>set (actors s). b < next_ref s"
  shows "a \<notin> set (actors (state_of (ExplodingMonster_step s a)))"
proof -
  define s1 where "s1 = (if is_trapped s a then upd s a (\<lambda>ob. ob\<lparr>life := life ob - 1\<rparr>) else s)"
  define s2 where "s2 = upd s1 a (\<lambda>ob. ob\<lparr>life := life ob - 1\<rparr>)"
  define r4 where "r4 = (if Actor_is_dead s2 a then
                 (case remove_actor s2 a of
                    Raise e s3 \<Rightarrow> Raise e s3
                  | Return u s3 \<Rightarrow> explode s3 a)
               else Return None s2)"
  have dead: "Actor_is_dead s2 a"
    using zero by (simp add: s2_def s1_def heap_upd Actor_is_dead_def)
  have a2: "actors s2 = actors s" "next_ref s2 = next_ref s" by (simp_all add: s2_def s1_def)
  have step: "ExplodingMonster_step s a =
      (case r4 of
           Raise e s4 \<Rightarrow> Raise e s4
         | Return r s4 \<Rightarrow>
             (case delay s4 a of
                Raise e s5 \<Rightarrow> Raise e s5
              | Return go s5 \<Rightarrow>
                  if \<not> go then Return None s5
                  else (case move s5 a a (adx (heap s5 a)) (ady (heap s5 a)) of
                          Raise e s6 \<Rightarrow> Raise e s6
                        | Return r s6 \<Rightarrow> Return (Some True) s6)))"
    by (simp only: ExplodingMonster_step_def Let_def r4_def s2_def s1_def)
  from ret obtain v s4 where r4: "r4 = Return v s4" by (cases r4) (simp_all add: step)
  have listed: "a \<in> set (actors s)"
    using r4 dead a2 by (auto simp: r4_def remove_actor_def split: if_splits)
  then have r4e: "r4 = explode (s2\<lparr>actors := remove1 a (actors s)\<rparr>) a"
    using dead a2 by (simp add: r4_def remove_actor_def)
  have "set (remove1 a (actors s)) \<subseteq> (set (actors s) - {a}) \<union> {r. next_ref s \<le> r}"
    using dist by auto
  then have "set (actors (state_of r4)) \<subseteq> (set (actors s) - {a}) \<union> {r. next_ref s \<le> r}"
    unfolding r4e by (intro explode_actors) (simp_all add: a2)
  moreover have "a < next_ref s" using listed alloc by blast
  ultimately have "a \<notin> set (actors s4)" using r4 by auto
  then show ?thesis
    using Monster_tail_actors[where t=s4 and a=a] by (simp add: step r4)
qed

section \<open>Moves, explosions and steps keep the cells distinct\<close>

lemma cells_distinct_upd_keep [simp]:
  "(\<And>ob. ax (f ob) = ax ob) \<Longrightarrow> (\<And>ob. ay (f ob) = ay ob) \<Longrightarrow>
   cells_distinct (upd s a f) = cells_distinct s"
  by (simp add: cells_distinct_def get_position_def cong: map_cong)






lemma ahead_clear_stick [simp]: "ahead_clear (stick s self b) a dx dy = ahead_clear s a dx dy"
  by (simp add: ahead_clear_def)



lemma allocated_upd [simp]: "allocated (upd s a f) = allocated s"
  by (simp add: allocated_def)





















section \<open>Evaluating the model on concrete stages\<close>

lemmas model_defs =
  move.simps stage_with_def Stage_init_def register_def new_def add_actor_def Actor_init_def
  is_in_bounds_def is_in_bounds_x_def is_in_bounds_y_def get_actor_def get_position_def
  reenters_def relocate_if_moved_def Monster_init_def ExplodingMonster_init_def Flame_init_def
  KeyboardPlayer_init_def set_player_def player_event_def upd_def set_position_def
  Actor_is_dead_def Actor_move_def delay_def remove_actor_def occupant_isinstance_def
  isinstance_def block_def blocked_def is_trapped_def explode_cell_def explode_def
  Actor_step_def KeyboardPlayer_is_dead_def key_direction_def KeyboardPlayer_step_def
  Monster_step_def ExplodingMonster_step_def Flame_step_def step_def Stage_step_def

section \<open>Stage.step and removal during the iteration\<close>

text \<open>
  Claim C1 says that every actor that is live at the start of a tick is stepped in that
  tick, also when an actor before it is removed during the tick. The code does not do
  that. On a 3 by 3 stage with two flames (life 10 each), both are stepped in each of
  the rounds 1 to 9; in round 10 the first flame reaches life 0 and removes itself, the
  second flame moves to index 0 of the list while the iterator goes on to index 1, and
  the loop ends: the second flame, live at the start of the round, is not stepped and
  keeps life 1.
\<close>

theorem Stage_step_skips_actor_after_removal:
  "(case ticks 3 10 (stage_with 3 3 [Flame_init 0 0 1, Flame_init 1 0 1]) of
      Some (Return called s) \<Rightarrow>
        called ! 8 = [0, 1] \<and> called ! 9 = [0] \<and> actors s = [1] \<and> life (heap s 1) = 1
    | _ \<Rightarrow> False)"
  by (simp add: model_defs eval_nat_numeral)

section \<open>A monster stuck by a pushed StickyBox\<close>

text \<open>
  Claim C5 says that a monster displaced by a StickyBox is stuck with the box and a
  recorded stick position, and that its stuck check never raises. In the code
  \<^verbatim>\<open>StickyBox.move\<close> sets \<^verbatim>\<open>stuck\<close> and \<^verbatim>\<open>stick_with\<close> but leaves \<^verbatim>\<open>stick_position\<close>
  at \<^verbatim>\<open>None\<close>. With the player at (0,0), a StickyBox at (1,0), a NormalMonster at (2,0)
  and the key RIGHT pending, the tick raises \<^verbatim>\<open>TypeError\<close> in the monster's step.
\<close>

theorem StickyBox_push_makes_Monster_step_raise:
  "(case Stage_step 4
           (player_event
              (register
                 (register (set_player (Stage_init 5 5) (KeyboardPlayer_init 0 0))
                    (Actor_init StickyBox 1 0 5))
                 (Monster_init NormalMonster 2 0 3))
              K_RIGHT) of
      Some (Raise e s) \<Rightarrow>
        e = TypeError \<and> stuck (heap s 2) \<and> stick_with (heap s 2) = Some 1
        \<and> stick_position (heap s 2) = None \<and> get_position s 1 = (1, 0)
    | _ \<Rightarrow> False)"
  by (simp add: model_defs eval_nat_numeral)

section \<open>Life below zero\<close>

text \<open>Both versions of \<^verbatim>\<open>is_dead\<close> answer whether the life counter is 0.\<close>

lemma is_dead_iff_life_zero:
  "Actor_is_dead s a \<longleftrightarrow> life (heap s a) = 0"
  "fst (KeyboardPlayer_is_dead s a) \<longleftrightarrow> life (heap s a) = 0"
  by (simp_all add: Actor_is_dead_def KeyboardPlayer_is_dead_def)

text \<open>
  Claim C8 says that \<^verbatim>\<open>is_dead\<close> holds exactly at life 0 and that no life counter becomes
  negative. The first half holds (\<open>is_dead_iff_life_zero\<close>), the second does not. An
  ExplodingMonster built with \<^verbatim>\<open>exploding_delay = 1\<close> (life 11) in the corner (0,0) of a
  20 by 20 stage, with boxes on its three neighbours inside the stage, is trapped on every
  tick and loses 2 life per tick: after 6 ticks its life is -1, it is still on the stage,
  and \<^verbatim>\<open>is_dead\<close> is false.
\<close>

theorem ExplodingMonster_life_negative:
  "(case ticks 5 6
           (stage_with 20 20
              [ExplodingMonster_init 0 0 1 1, Actor_init Box 1 0 5,
               Actor_init Box 0 1 5, Actor_init Box 1 1 5]) of
      Some (Return called s) \<Rightarrow>
        life (heap s 0) = - 1 \<and> 0 \<in> set (actors s) \<and> \<not> Actor_is_dead s 0
    | _ \<Rightarrow> False)"
  by (simp add: model_defs eval_nat_numeral)

section \<open>The value returned by Box.move\<close>

text \<open>
  Claim C9 says that \<^verbatim>\<open>Box.move\<close> returns \<^verbatim>\<open>False\<close> when the occupant of the target cell
  refuses to move. A box at (0,0) asked to move right against a wall at (1,0) returns
  \<^verbatim>\<open>None\<close>: the method falls off its end.
\<close>

theorem Box_move_against_Wall_returns_None:
  "move (stage_with 3 3 [Actor_init Box 0 0 5, Actor_init Wall 1 0 5]) 0 0 1 0 =
     Return None (stage_with 3 3 [Actor_init Box 0 0 5, Actor_init Wall 1 0 5])"
  by (simp add: model_defs)

section \<open>The player walks onto an ExplodingMonster\<close>

text \<open>
  Claim C10: when a KeyboardPlayer is asked to move to a cell inside the stage whose
  occupant is a Monster that is no NormalMonster, EzMonster or Flame (an ExplodingMonster,
  or a plain Monster), the move returns \<^verbatim>\<open>True\<close>, and afterwards the player stands in
  that cell and so does the occupant: the occupant is not asked to move, its object is
  unchanged and it is still in the stage's list, which is as before; the life of the player
  is as before, and no object other than the player has changed at all.
\<close>

theorem KeyboardPlayer_move_onto_ExplodingMonster:
  assumes "klass (heap s p) = KeyboardPlayer"
    and "is_in_bounds s (ax (heap s p) + dx) (ay (heap s p) + dy)"
    and "get_actor s (ax (heap s p) + dx) (ay (heap s p) + dy) = Some m"
    and "isinstance (klass (heap s m)) Monster"
    and "\<not> isinstance (klass (heap s m)) NormalMonster"
    and "\<not> isinstance (klass (heap s m)) EzMonster"
    and "\<not> isinstance (klass (heap s m)) Flame"
  shows "\<exists>s'. move s p other dx dy = Return (Some True) s'
           \<and> get_position s' p = (ax (heap s p) + dx, ay (heap s p) + dy)
           \<and> get_position s' m = (ax (heap s p) + dx, ay (heap s p) + dy)
           \<and> actors s' = actors s \<and> m \<in> set (actors s')
           \<and> heap s' m = heap s m
           \<and> life (heap s' p) = life (heap s p)
           \<and> (\<forall>a. a \<noteq> p \<longrightarrow> heap s' a = heap s a)"
proof -
  let ?s' = "set_position s p (ax (heap s p) + dx) (ay (heap s p) + dy)"
  have mv: "move s p other dx dy = Return (Some True) ?s'"
    using assms by (subst move.simps) (simp add: occupant_isinstance_def Actor_move_def)
  have ne: "m \<noteq> p" using assms(1,4) by (auto simp: isinstance_def)
  have mpos: "get_position s m = (ax (heap s p) + dx, ay (heap s p) + dy)" "m \<in> set (actors s)"
    using get_actor_SomeD[OF assms(3)] by (simp_all add: get_position_def)
  show ?thesis
    using mv ne mpos
    by (auto simp: set_position_def get_position_def heap_upd)
qed

theorem KeyboardPlayer_move_onto_ExplodingMonster_witness:
  "klass (heap fuse_walk_stage 0) = KeyboardPlayer
   \<and> is_in_bounds fuse_walk_stage 1 0
   \<and> get_position fuse_walk_stage 0 = (0, 0)
   \<and> get_actor fuse_walk_stage 1 0 = Some 1
   \<and> klass (heap fuse_walk_stage 1) = ExplodingMonster
   \<and> (\<exists>s'. move fuse_walk_stage 0 0 1 0 = Return (Some True) s'
          \<and> get_position s' 0 = (1, 0) \<and> get_position s' 1 = (1, 0)
          \<and> actors s' = [0, 1]
          \<and> life (heap s' 0) = 5 \<and> life (heap s' 1) = 30)"
proof -
  have h: "klass (heap fuse_walk_stage 0) = KeyboardPlayer"
    "is_in_bounds fuse_walk_stage (ax (heap fuse_walk_stage 0) + 1) (ay (heap fuse_walk_stage 0) + 0)"
    "get_actor fuse_walk_stage (ax (heap fuse_walk_stage 0) + 1) (ay (heap fuse_walk_stage 0) + 0) = Some 1"
    "isinstance (klass (heap fuse_walk_stage 1)) Monster"
    "\<not> isinstance (klass (heap fuse_walk_stage 1)) NormalMonster"
    "\<not> isinstance (klass (heap fuse_walk_stage 1)) EzMonster"
    "\<not> isinstance (klass (heap fuse_walk_stage 1)) Flame"
    by (simp_all add: fuse_walk_stage_def model_defs)
  have g: "ax (heap fuse_walk_stage 0) = 0" "ay (heap fuse_walk_stage 0) = 0"
    "actors fuse_walk_stage = [0, 1]" "life (heap fuse_walk_stage 0) = 5"
    "life (heap fuse_walk_stage 1) = 30" "klass (heap fuse_walk_stage 1) = ExplodingMonster"
    "is_in_bounds fuse_walk_stage 1 0" "get_actor fuse_walk_stage 1 0 = Some 1"
    "get_position fuse_walk_stage 0 = (0, 0)"
    by (simp_all add: fuse_walk_stage_def model_defs)
  from KeyboardPlayer_move_onto_ExplodingMonster[OF h, of 0]
  obtain s' where "move fuse_walk_stage 0 0 1 0 = Return (Some True) s'"
    "get_position s' 0 = (1, 0)" "get_position s' 1 = (1, 0)" "actors s' = [0, 1]"
    "life (heap s' 0) = 5" "heap s' 1 = heap fuse_walk_stage 1"
    using g by auto
  then show ?thesis using h(1) g by auto
qed

section \<open>Push chains of boxes\<close>



section \<open>The life of a plain monster in one step\<close>

text \<open>
  Claim C7, amended. \<^verbatim>\<open>Monster.step\<close> (the step of Monster, NormalMonster and EzMonster)
  tests the nine cells of the 3 by 3 block around the monster, its own cell included, and
  it does so after a monster with life 0 has been removed from the stage. For a monster
  with life other than 0 whose own cell passes the test (it does when the monster is the
  first actor listed at its cell, \<open>own_cell_blocked\<close>): if all 8 neighbouring cells are out
  of bounds or have a Box or a Monster as occupant, the life after the step is one less,
  otherwise it is 5. For a listed monster with life 0 the test is made on the stage
  without it; the life after the step is 5 unless all nine cells still pass.
\<close>

theorem Monster_step_life:
  "klass (heap s a) \<in> {Monster, NormalMonster, EzMonster} \<longrightarrow>
   (life (heap s a) \<noteq> 0 \<and> blocked s (ax (heap s a), ay (heap s a)) \<longrightarrow>
      life (heap (state_of (Monster_step s a)) a) =
        (if list_all (blocked s) (Moore_neighbours (ax (heap s a)) (ay (heap s a)))
         then life (heap s a) - 1 else 5))
   \<and> (life (heap s a) = 0 \<and> a \<in> set (actors s) \<longrightarrow>
      life (heap (state_of (Monster_step s a)) a) =
        (if is_trapped (s\<lparr>actors := remove1 a (actors s)\<rparr>) a then - 1 else 5))"
  using life_after_Monster_step[of s a] by (simp add: is_trapped_iff)

theorem Monster_step_life_witness:
  "klass (heap cornered_monster_stage 0) \<in> {Monster, NormalMonster, EzMonster}
   \<and> life (heap cornered_monster_stage 0) \<noteq> 0
   \<and> blocked cornered_monster_stage
        (ax (heap cornered_monster_stage 0), ay (heap cornered_monster_stage 0))
   \<and> life (heap (state_of (Monster_step cornered_monster_stage 0)) 0) = 4
   \<and> length (tick_states 5 5 cornered_monster_stage) = 6
   \<and> life (heap (tick_states 5 5 cornered_monster_stage ! 5) 0) = 0
   \<and> 0 \<in> set (actors (tick_states 5 5 cornered_monster_stage ! 5))
   \<and> life (heap (state_of (Monster_step (tick_states 5 5 cornered_monster_stage ! 5) 0)) 0) = 5"
proof -
  let ?s = cornered_monster_stage
  let ?t = "tick_states 5 5 cornered_monster_stage ! 5"
  have h: "klass (heap ?s 0) \<in> {Monster, NormalMonster, EzMonster}" "life (heap ?s 0) \<noteq> 0"
    "blocked ?s (ax (heap ?s 0), ay (heap ?s 0))"
    "list_all (blocked ?s) (Moore_neighbours (ax (heap ?s 0)) (ay (heap ?s 0)))"
    "life (heap ?s 0) = 5"
    by (simp_all add: cornered_monster_stage_def Moore_neighbours_def model_defs)
  have g: "length (tick_states 5 5 ?s) = 6" "life (heap ?t 0) = 0" "0 \<in> set (actors ?t)"
    "klass (heap ?t 0) \<in> {Monster, NormalMonster, EzMonster}"
    "\<not> is_trapped (?t\<lparr>actors := remove1 0 (actors ?t)\<rparr>) 0"
    by (simp_all add: cornered_monster_stage_def eval_nat_numeral model_defs)
  from Monster_step_life[of ?s 0] h
  have "life (heap (state_of (Monster_step ?s 0)) 0) = 4" by auto
  moreover from Monster_step_life[of ?t 0] g
  have "life (heap (state_of (Monster_step ?t 0)) 0) = 5" by auto
  ultimately show ?thesis using h g by simp
qed

text \<open>
  The claim as stated fails for the step of a monster that starts the step with life 0:
  after five rounds the cornered NormalMonster has life 0 and its 8 neighbours are still
  blocked, but its next step removes it, finds its own cell empty and sets its life to 5.
\<close>

theorem Monster_step_dead_counterexample:
  "length (tick_states 5 5 cornered_monster_stage) = 6
   \<and> klass (heap (tick_states 5 5 cornered_monster_stage ! 5) 0) = NormalMonster
   \<and> list_all (blocked (tick_states 5 5 cornered_monster_stage ! 5))
        (Moore_neighbours (ax (heap (tick_states 5 5 cornered_monster_stage ! 5) 0))
           (ay (heap (tick_states 5 5 cornered_monster_stage ! 5) 0)))
   \<and> life (heap (state_of (Monster_step (tick_states 5 5 cornered_monster_stage ! 5) 0)) 0)
        \<noteq> life (heap (tick_states 5 5 cornered_monster_stage ! 5) 0) - 1"
  by (simp add: cornered_monster_stage_def Moore_neighbours_def eval_nat_numeral model_defs)

section \<open>The fuse of an ExplodingMonster\<close>




section \<open>Dead actors leave the stage, the player included\<close>

text \<open>
  Claim C6, amended. The step of the KeyboardPlayer removes the player from the stage's
  list of actors when its life is 0 (after the pending key has been handled), and sets
  its flag \<^verbatim>\<open>dead\<close>; the stage's reference to the player stays. Every other actor whose
  life is 0 when its step tests it is, after a step that returns, no longer in the list
  (for a list without duplicates whose references are allocated).
\<close>

theorem dead_actor_is_removed:
  "returned (step s a) \<longrightarrow>
     (klass (heap s a) = KeyboardPlayer \<and> life (heap (state_of (step s a)) a) = 0 \<longrightarrow>
        dead (heap (state_of (step s a)) a) \<and> a \<in> set (actors s)
        \<and> actors (state_of (step s a)) = remove1 a (actors s)
        \<and> player (state_of (step s a)) = player s)
     \<and> (klass (heap s a) \<noteq> KeyboardPlayer \<and> life_when_tested s a = 0 \<and> distinct (actors s)
          \<and> allocated s \<longrightarrow>
        a \<notin> set (actors (state_of (step s a))))"
proof (intro impI conjI)
  assume ret: "returned (step s a)"
    and kp: "klass (heap s a) = KeyboardPlayer \<and> life (heap (state_of (step s a)) a) = 0"
  from kp have eq: "step s a = KeyboardPlayer_step s a" by (simp add: step_def)
  from KeyboardPlayer_step_dead[of s a] ret kp
  show "dead (heap (state_of (step s a)) a)" "a \<in> set (actors s)"
    "actors (state_of (step s a)) = remove1 a (actors s)"
    "player (state_of (step s a)) = player s"
    by (simp_all add: eq)
next
  assume ret: "returned (step s a)"
    and h: "klass (heap s a) \<noteq> KeyboardPlayer \<and> life_when_tested s a = 0 \<and> distinct (actors s)
          \<and> allocated s"
  then have dist: "distinct (actors s)" and alloc: "\<forall>b\<in>set (actors s). b < next_ref s"
    by (simp_all add: allocated_def)
  consider (exploding) "klass (heap s a) = ExplodingMonster"
    | (flame) "klass (heap s a) = Flame"
    | (monster) "klass (heap s a) \<in> {Monster, NormalMonster, EzMonster}"
    | (plain) "klass (heap s a) \<in> {Actor, Player, Box, StickyBox, Wall}"
    using h by (cases "klass (heap s a)") auto
  then show "a \<notin> set (actors (state_of (step s a)))"
  proof cases
    case exploding
    then have eq: "step s a = ExplodingMonster_step s a" by (simp add: step_def)
    from h exploding have "life (heap s a) - (if is_trapped s a then 2 else 1) = 0"
      by (simp add: life_when_tested_def)
    from ExplodingMonster_step_removes[OF _ this dist alloc] ret show ?thesis by (simp add: eq)
  next
    case flame
    then have eq: "step s a = Flame_step s a" by (simp add: step_def)
    from h flame have "life (heap s a) = 1" by (simp add: life_when_tested_def)
    from Flame_step_removes[OF _ this] ret dist show ?thesis by (simp add: eq)
  next
    case monster
    then have eq: "step s a = Monster_step s a" by (auto simp: step_def isinstance_def)
    from h monster have "life (heap s a) = 0" by (auto simp: life_when_tested_def)
    from Monster_step_removes[OF _ this] ret dist show ?thesis by (simp add: eq)
  next
    case plain
    then have eq: "step s a = Actor_step s a" by (auto simp: step_def isinstance_def)
    from h plain have "life (heap s a) = 0" by (auto simp: life_when_tested_def)
    from Actor_step_removes[OF _ this] ret dist show ?thesis by (simp add: eq)
  qed
qed

theorem dead_actor_is_removed_witness:
  "returned (step doomed_player_stage 0)
   \<and> klass (heap doomed_player_stage 0) = KeyboardPlayer
   \<and> life (heap (state_of (step doomed_player_stage 0)) 0) = 0
   \<and> actors (state_of (step doomed_player_stage 0)) = remove1 0 (actors doomed_player_stage)
   \<and> returned (step (tick_states 5 5 cornered_monster_stage ! 5) 0)
   \<and> klass (heap (tick_states 5 5 cornered_monster_stage ! 5) 0) \<noteq> KeyboardPlayer
   \<and> life_when_tested (tick_states 5 5 cornered_monster_stage ! 5) 0 = 0
   \<and> distinct (actors (tick_states 5 5 cornered_monster_stage ! 5))
   \<and> allocated (tick_states 5 5 cornered_monster_stage ! 5)
   \<and> 0 \<notin> set (actors (state_of (step (tick_states 5 5 cornered_monster_stage ! 5) 0)))"
proof -
  let ?s = doomed_player_stage
  let ?t = "tick_states 5 5 cornered_monster_stage ! 5"
  have h: "returned (step ?s 0)" "klass (heap ?s 0) = KeyboardPlayer"
    "life (heap (state_of (step ?s 0)) 0) = 0"
    by (simp_all add: doomed_player_stage_def model_defs)
  have g: "returned (step ?t 0)" "klass (heap ?t 0) \<noteq> KeyboardPlayer"
    "life_when_tested ?t 0 = 0" "distinct (actors ?t)"
    "allocated ?t"
    by (simp_all add: cornered_monster_stage_def life_when_tested_def allocated_def
          eval_nat_numeral model_defs)
  from dead_actor_is_removed[of ?s 0] h
  have "actors (state_of (step ?s 0)) = remove1 0 (actors ?s)" by blast
  moreover from dead_actor_is_removed[of ?t 0] g
  have "0 \<notin> set (actors (state_of (step ?t 0)))" by blast
  ultimately show ?thesis using h g by blast
qed

text \<open>
  The claim as stated (the player is never removed from the collection) fails: the
  player walks into the NormalMonster, its life becomes 0, and after the tick it is
  flagged dead and no longer in the list of actors.
\<close>

theorem Player_removed_on_death_counterexample:
  "player doomed_player_stage = Some 0
   \<and> klass (heap doomed_player_stage 0) = KeyboardPlayer
   \<and> 0 \<in> set (actors doomed_player_stage)
   \<and> length (tick_states 3 1 doomed_player_stage) = 2
   \<and> life (heap (tick_states 3 1 doomed_player_stage ! 1) 0) = 0
   \<and> dead (heap (tick_states 3 1 doomed_player_stage ! 1) 0)
   \<and> 0 \<notin> set (actors (tick_states 3 1 doomed_player_stage ! 1))"
  by (simp add: doomed_player_stage_def eval_nat_numeral model_defs)

section \<open>At most one actor per cell\<close>




end
